theory Spec2Isabelle
  imports Main
begin

section \<open>Text, bytes and files\<close>

text \<open>
  A Python \<^verbatim>\<open>str\<close> is a sequence of Unicode code points, so text is a list of
  natural numbers; a file on disk is a sequence of bytes (\<^typ>\<open>char\<close> is the 8-bit
  byte). \<open>lit\<close> writes an ASCII literal of the source as text.
\<close>

type_synonym codepoint = nat
type_synonym str = "codepoint list"
type_synonym bytes = "char list"

definition lit :: "string \<Rightarrow> str" where
  "lit s = map of_char s"

abbreviation comma :: codepoint where "comma \<equiv> 44"
abbreviation tab :: codepoint where "tab \<equiv> 9"
abbreviation semicolon :: codepoint where "semicolon \<equiv> 59"
abbreviation newline :: codepoint where "newline \<equiv> 10"
abbreviation carriage_return :: codepoint where "carriage_return \<equiv> 13"

text \<open>
  The exceptions that the modelled functions let escape: \<^verbatim>\<open>OSError\<close> from \<^verbatim>\<open>open\<close>,
  \<^verbatim>\<open>ValueError(msg)\<close> from the loader, \<^verbatim>\<open>typer.Exit(code)\<close> from a command, and an
  error raised inside the external dataframe engine.
\<close>

datatype exn = OSError | ValueError str | Exit int | EngineError

subsection \<open>\<^verbatim>\<open>str.strip()\<close>, \<^verbatim>\<open>str.lstrip(chars)\<close>, \<^verbatim>\<open>str.lower()\<close>\<close>

text \<open>
  \<^verbatim>\<open>str.strip()\<close> with no argument removes leading and trailing characters for which
  \<^verbatim>\<open>str.isspace\<close> holds; these are the code points below.
\<close>

definition isspace :: "codepoint \<Rightarrow> bool" where
  "isspace c =
     ((9 \<le> c \<and> c \<le> 13) \<or> (28 \<le> c \<and> c \<le> 32) \<or> c = 0x85 \<or> c = 0xA0 \<or> c = 0x1680 \<or>
      (0x2000 \<le> c \<and> c \<le> 0x200A) \<or> c = 0x2028 \<or> c = 0x2029 \<or> c = 0x202F \<or>
      c = 0x205F \<or> c = 0x3000)"

definition lstrip :: "str \<Rightarrow> str" where
  "lstrip s = dropWhile isspace s"

definition rstrip :: "str \<Rightarrow> str" where
  "rstrip s = rev (dropWhile isspace (rev s))"

definition strip :: "str \<Rightarrow> str" where
  "strip s = rstrip (lstrip s)"

definition lstrip_chars :: "str \<Rightarrow> str \<Rightarrow> str" where
  "lstrip_chars chars s = dropWhile (\<lambda>c. c \<in> set chars) s"

text \<open>
  \<^verbatim>\<open>str.lower()\<close> maps \<open>A\<close>..\<open>Z\<close> to \<open>a\<close>..\<open>z\<close> on a string of ASCII characters only.
  On any other string the interpreter applies the Unicode case mapping, which is a table
  of the runtime; it is the parameter \<open>ul\<close>.
\<close>

definition ascii_lower :: "codepoint \<Rightarrow> codepoint" where
  "ascii_lower c = (if 65 \<le> c \<and> c \<le> 90 then c + 32 else c)"

definition lower :: "(str \<Rightarrow> str) \<Rightarrow> str \<Rightarrow> str" where
  "lower ul s = (if list_all (\<lambda>c. c < 128) s then map ascii_lower s else ul s)"

subsection \<open>Opening a file as text\<close>

text \<open>
  \<^verbatim>\<open>open(path, "r", encoding="utf-8", errors="ignore")\<close>: the bytes are decoded as UTF-8
  and every byte that is not part of a well-formed sequence is dropped. An invalid start
  byte drops that byte; an invalid continuation byte drops the bytes read before it; a
  sequence cut short by the end of the data drops the rest.
\<close>

definition continuation :: "nat \<Rightarrow> bool" where
  "continuation b = (0x80 \<le> b \<and> b < 0xC0)"

definition second_ok :: "nat \<Rightarrow> nat \<Rightarrow> bool" where
  "second_ok b b1 =
     (continuation b1 \<and>
      \<not> (b = 0xE0 \<and> b1 < 0xA0) \<and> \<not> (b = 0xED \<and> 0xA0 \<le> b1) \<and>
      \<not> (b = 0xF0 \<and> b1 < 0x90) \<and> \<not> (b = 0xF4 \<and> 0x90 \<le> b1))"

fun utf8_ignore :: "nat list \<Rightarrow> str" where
  "utf8_ignore [] = []"
| "utf8_ignore (b # bs) =
     (if b < 0x80 then b # utf8_ignore bs
      else if b < 0xC2 then utf8_ignore bs
      else if b < 0xE0 then
        (case bs of
           [] \<Rightarrow> []
         | b1 # r1 \<Rightarrow>
             if continuation b1 then ((b - 0xC0) * 64 + (b1 - 0x80)) # utf8_ignore r1
             else utf8_ignore bs)
      else if b < 0xF0 then
        (case bs of
           [] \<Rightarrow> []
         | b1 # r1 \<Rightarrow>
             if \<not> second_ok b b1 then utf8_ignore bs
             else (case r1 of
                     [] \<Rightarrow> []
                   | b2 # r2 \<Rightarrow>
                       if continuation b2
                       then ((b - 0xE0) * 4096 + (b1 - 0x80) * 64 + (b2 - 0x80)) # utf8_ignore r2
                       else utf8_ignore r1))
      else if b < 0xF5 then
        (case bs of
           [] \<Rightarrow> []
         | b1 # r1 \<Rightarrow>
             if \<not> second_ok b b1 then utf8_ignore bs
             else (case r1 of
                     [] \<Rightarrow> []
                   | b2 # r2 \<Rightarrow>
                       if \<not> continuation b2 then utf8_ignore r1
                       else (case r2 of
                               [] \<Rightarrow> []
                             | b3 # r3 \<Rightarrow>
                                 if continuation b3
                                 then ((b - 0xF0) * 262144 + (b1 - 0x80) * 4096 +
                                       (b2 - 0x80) * 64 + (b3 - 0x80)) # utf8_ignore r3
                                 else utf8_ignore r2)))
      else utf8_ignore bs)"

text \<open>
  Text mode translates \<open>\r\n\<close> and a lone \<open>\r\<close> to \<open>\n\<close>; iterating over the file yields
  the lines, each with its terminating \<open>\n\<close> (the last line may lack one).
\<close>

fun universal_newlines :: "str \<Rightarrow> str" where
  "universal_newlines [] = []"
| "universal_newlines (c # cs) =
     (if c = carriage_return then
        (case cs of
           [] \<Rightarrow> [newline]
         | d # ds \<Rightarrow> if d = newline then newline # universal_newlines ds
                     else newline # universal_newlines cs)
      else c # universal_newlines cs)"

fun readlines :: "str \<Rightarrow> str list" where
  "readlines [] = []"
| "readlines (c # cs) =
     (if c = newline then [newline] # readlines cs
      else (case readlines cs of [] \<Rightarrow> [[c]] | l # ls \<Rightarrow> (c # l) # ls))"

definition text_lines :: "bytes \<Rightarrow> str list" where
  "text_lines bs = readlines (universal_newlines (utf8_ignore (map of_char bs)))"

text \<open>
  The file system maps a path to the bytes of the file there; a path with no entry
  cannot be opened (missing, a directory, no permission) and \<^verbatim>\<open>open\<close> raises.
\<close>

type_synonym fs = "str \<rightharpoonup> bytes"

definition open_text :: "fs \<Rightarrow> str \<Rightarrow> exn + str list" where
  "open_text fsys path =
     (case fsys path of None \<Rightarrow> Inl OSError | Some bs \<Rightarrow> Inr (text_lines bs))"

section \<open>Delimiter sniffing (\<^verbatim>\<open>utils.sniff_delimiter\<close>)\<close>

text \<open>
  \<^verbatim>\<open>max(counts, key=counts.get)\<close> walks the dictionary in insertion order and keeps the
  first key whose value is greater than every value before it.
\<close>

fun max_key :: "str \<times> nat \<Rightarrow> (str \<times> nat) list \<Rightarrow> str" where
  "max_key best [] = fst best"
| "max_key best (kv # kvs) = max_key (if snd best < snd kv then kv else best) kvs"

definition sniff_line :: "str \<Rightarrow> str" where
  "sniff_line line =
     (let c = ([comma], count_list line comma);
          t = ([tab], count_list line tab);
          s = ([semicolon], count_list line semicolon)
      in if list_ex (\<lambda>v. v \<noteq> 0) [snd c, snd t, snd s]
         then max_key c [t, s]
         else [comma])"

fun sniff_lines :: "str list \<Rightarrow> str" where
  "sniff_lines [] = [comma]"
| "sniff_lines (l # ls) =
     (let line = strip l
      in if line = [] then sniff_lines ls else sniff_line line)"

definition sniff_delimiter :: "fs \<Rightarrow> str \<Rightarrow> exn + str" where
  "sniff_delimiter fsys path =
     (case open_text fsys path of
        Inl e \<Rightarrow> Inl e
      | Inr ls \<Rightarrow> Inr (sniff_lines ls))"

text \<open>The first line that is not blank once trimmed, as the loop finds it.\<close>

definition first_nonblank :: "str list \<Rightarrow> str option" where
  "first_nonblank ls = find (\<lambda>l. strip l \<noteq> []) ls"

section \<open>Format detection (\<^verbatim>\<open>utils.detect_format\<close>)\<close>

text \<open>
  \<^verbatim>\<open>os.path.splitext\<close> (POSIX): the extension starts at the last dot of the path, if
  that dot lies after the last slash and some character between the slash and the dot
  is not a dot; otherwise the extension is empty. \<^verbatim>\<open>str.rfind\<close> gives \<open>-1\<close> when the
  character does not occur.
\<close>

abbreviation dot :: codepoint where "dot \<equiv> 46"
abbreviation slash :: codepoint where "slash \<equiv> 47"

definition rfind :: "str \<Rightarrow> codepoint \<Rightarrow> int" where
  "rfind s c = fold (\<lambda>(i, x) r. if x = c then int i else r) (enumerate 0 s) (- 1)"

definition splitext :: "str \<Rightarrow> str \<times> str" where
  "splitext p =
     (let sepIndex = rfind p slash;
          dotIndex = rfind p dot
      in if sepIndex < dotIndex \<and>
            list_ex (\<lambda>c. c \<noteq> dot)
              (take (nat (dotIndex - (sepIndex + 1))) (drop (nat (sepIndex + 1)) p))
         then (take (nat dotIndex) p, drop (nat dotIndex) p)
         else (p, []))"


text \<open>
  An \<^verbatim>\<open>Optional[str]\<close> argument is falsy when it is \<^verbatim>\<open>None\<close> or the empty string;
  \<open>or_else x y\<close> is the Python expression \<^verbatim>\<open>x or y\<close>.
\<close>

definition or_else :: "str option \<Rightarrow> str \<Rightarrow> str" where
  "or_else x y = (case x of None \<Rightarrow> y | Some s \<Rightarrow> if s \<noteq> [] then s else y)"

definition detect_format :: "(str \<Rightarrow> str) \<Rightarrow> str \<Rightarrow> str option \<Rightarrow> str" where
  "detect_format ul path fmt =
     (let f = or_else fmt []
      in if f \<noteq> [] then lower ul f
         else
           let ext = lower ul (snd (splitext path))
           in if ext = lit ''.csv'' \<or> ext = lit ''.tsv'' then lit ''csv''
              else if ext = lit ''.jsonl'' \<or> ext = lit ''.ndjson'' then lit ''ndjson''
              else if ext = lit ''.parquet'' \<or> ext = lit ''.pq'' then lit ''parquet''
              else lit ''csv'')"

section \<open>Frames of the dataframe engine\<close>

text \<open>
  A cell value reaches this code as a Python object. \<^verbatim>\<open>repr_cell\<close> looks at it through
  \<^verbatim>\<open>is None\<close>, \<^verbatim>\<open>isinstance\<close> and the texts that the interpreter gives for it, so a value
  is its kind together with that text: for a float the text of \<^verbatim>\<open>f"{val:.6g}"\<close>, for any
  other value the text of \<^verbatim>\<open>str(val)\<close>.
\<close>

datatype pyval =
    PyNone
  | PyFloat str
  | PyList str
  | PyTuple str
  | PySet str
  | PyDict str
  | PyOther str

text \<open>
  The dtypes of a column: the classes that \<^verbatim>\<open>NUMERIC_DTYPES\<close> lists, the text and boolean
  types, and any other (nested or parameterised) dtype, given by its \<^verbatim>\<open>repr\<close>.
\<close>

datatype dtype =
    Int8 | Int16 | Int32 | Int64
  | UInt8 | UInt16 | UInt32 | UInt64
  | Float32 | Float64
  | Decimal
  | Utf8
  | Boolean
  | OtherDtype str

record frame =
  columns :: "str list"
  dtypes :: "dtype list"
  rows :: "pyval list list"



text \<open>
  What a command does to the outside, in order: what it prints on the console and which
  file it asks the engine to write (the call of a writer, whether or not it succeeds).
\<close>

record table =
  title :: "str option"
  headers :: "str list"
  body :: "str list list"

datatype event =
    Print str
  | Print_panel str str
  | Print_table table int
  | Write_csv frame str str
  | Write_parquet frame str
  | Write_ndjson frame str

section \<open>Rendering (\<^verbatim>\<open>utils.repr_cell\<close>, \<^verbatim>\<open>utils.render_table\<close>)\<close>

text \<open>
  The string literal that \<^verbatim>\<open>repr_cell\<close> returns for \<^verbatim>\<open>None\<close> holds the three code points
  U+00E2, U+02C6, U+2026 (the bytes \<open>C3 A2 CB 86 E2 80 A6\<close> in \<^verbatim>\<open>utils.py\<close>).
\<close>

definition truncate_cell :: "str \<Rightarrow> str" where
  "truncate_cell s = (if length s \<le> 80 then s else take 77 s @ lit ''...'')"

fun repr_cell :: "pyval \<Rightarrow> str" where
  "repr_cell PyNone = [0xE2, 0x2C6, 0x2026]"
| "repr_cell (PyFloat g) = g"
| "repr_cell (PyList s) = truncate_cell s"
| "repr_cell (PyTuple s) = truncate_cell s"
| "repr_cell (PySet s) = truncate_cell s"
| "repr_cell (PyDict s) = truncate_cell s"
| "repr_cell (PyOther s) = s"


section \<open>Column classification (\<^verbatim>\<open>utils.is_numeric_dtype\<close>, \<^verbatim>\<open>utils.is_utf8_dtype\<close>)\<close>

fun contains :: "str \<Rightarrow> str \<Rightarrow> bool" where
  "contains sub [] = (sub = [])"
| "contains sub (c # cs) = (take (length sub) (c # cs) = sub \<or> contains sub cs)"

text \<open>
  \<^verbatim>\<open>repr(dt)\<close>: the name of the class (the engine prints its text type as \<open>String\<close>);
  \<open>is_numeric_dtype\<close> only asks whether it contains \<open>Decimal\<close>. A parameterised or nested
  dtype is no member of \<^verbatim>\<open>NUMERIC_DTYPES\<close>; a decimal type with precision and scale is
  recognised by its \<^verbatim>\<open>repr\<close>.
\<close>

fun dtype_repr :: "dtype \<Rightarrow> str" where
  "dtype_repr Int8 = lit ''Int8''"
| "dtype_repr Int16 = lit ''Int16''"
| "dtype_repr Int32 = lit ''Int32''"
| "dtype_repr Int64 = lit ''Int64''"
| "dtype_repr UInt8 = lit ''UInt8''"
| "dtype_repr UInt16 = lit ''UInt16''"
| "dtype_repr UInt32 = lit ''UInt32''"
| "dtype_repr UInt64 = lit ''UInt64''"
| "dtype_repr Float32 = lit ''Float32''"
| "dtype_repr Float64 = lit ''Float64''"
| "dtype_repr Decimal = lit ''Decimal''"
| "dtype_repr Utf8 = lit ''String''"
| "dtype_repr Boolean = lit ''Boolean''"
| "dtype_repr (OtherDtype r) = r"

definition NUMERIC_DTYPES :: "dtype list" where
  "NUMERIC_DTYPES =
     [Int8, Int16, Int32, Int64, UInt8, UInt16, UInt32, UInt64, Float32, Float64, Decimal]"

definition is_numeric_dtype :: "dtype \<Rightarrow> bool" where
  "is_numeric_dtype dt =
     (dt \<in> set NUMERIC_DTYPES \<or> contains (lit ''Decimal'') (dtype_repr dt))"


section \<open>Loading (\<^verbatim>\<open>utils.read_frame\<close>)\<close>

text \<open>
  What lies outside the repository is a parameter of the model: the Unicode case mapping
  of the interpreter, the files on disk, and the operations of the dataframe engine that
  parse or write a file, draw a random sample, group or aggregate. Each engine operation
  returns its result or raises.
  \<^item> \<open>read_csv path separator infer_schema_length\<close>, \<open>read_ndjson path\<close>,
    \<open>read_parquet path\<close>: the three readers;
  \<^item> \<open>write_csv df path separator\<close>, \<open>write_parquet df path\<close>, \<open>write_ndjson df path\<close>:
    the three writers;
  \<^item> \<open>sample_seeded df n seed\<close> is \<^verbatim>\<open>df.sample(n=n, seed=seed)\<close>;
  \<^item> \<open>sample_unseeded df n rng\<close> is \<^verbatim>\<open>df.sample(n=n)\<close>, which draws from the state
    \<open>rng\<close> of the process's random generator;
  \<^item> \<open>summarize df num_cols\<close> is the \<^verbatim>\<open>df.select\<close> of the count and of the mean, standard
    deviation, minimum and maximum of each numeric column;
  \<^item> \<open>value_counts df c\<close> is
    \<^verbatim>\<open>df.select(pl.col(c)).drop_nulls().group_by(c).len().sort("len", descending=True)\<close>:
    the distinct non-null values of the column with their counts, the greater counts
    first.
\<close>

record world =
  unicode_lower :: "str \<Rightarrow> str"
  files :: fs
  read_csv :: "str \<Rightarrow> str \<Rightarrow> nat \<Rightarrow> exn + frame"
  read_ndjson :: "str \<Rightarrow> exn + frame"
  read_parquet :: "str \<Rightarrow> exn + frame"
  sample_seeded :: "frame \<Rightarrow> int \<Rightarrow> int \<Rightarrow> exn + frame"
  sample_unseeded :: "frame \<Rightarrow> int \<Rightarrow> nat \<Rightarrow> exn + frame"
  summarize :: "frame \<Rightarrow> str list \<Rightarrow> exn + frame"
  value_counts :: "frame \<Rightarrow> str \<Rightarrow> exn + frame"
  write_csv :: "frame \<Rightarrow> str \<Rightarrow> str \<Rightarrow> exn + unit"
  write_parquet :: "frame \<Rightarrow> str \<Rightarrow> exn + unit"
  write_ndjson :: "frame \<Rightarrow> str \<Rightarrow> exn + unit"

definition read_frame ::
  "world \<Rightarrow> str \<Rightarrow> str option \<Rightarrow> str option \<Rightarrow> nat \<Rightarrow> exn + frame" where
  "read_frame w path fmt delimiter infer_schema_length =
     (let fmt = detect_format (unicode_lower w) path fmt
      in if fmt = lit ''csv'' then
           (case delimiter of
              None \<Rightarrow>
                (case sniff_delimiter (files w) path of
                   Inl e \<Rightarrow> Inl e
                 | Inr d \<Rightarrow> read_csv w path d infer_schema_length)
            | Some d \<Rightarrow> read_csv w path d infer_schema_length)
         else if fmt = lit ''ndjson'' then read_ndjson w path
         else if fmt = lit ''parquet'' then read_parquet w path
         else Inl (ValueError (lit ''Unsupported format: '' @ fmt)))"

section \<open>Commands (\<^verbatim>\<open>cli.stats\<close>, \<^verbatim>\<open>cli.sample\<close>, \<^verbatim>\<open>cli.convert\<close>)\<close>

text \<open>
  A command run yields the events it caused and either returns or raises; an exception
  that leaves the command ends the process (\<^verbatim>\<open>typer.Exit(code)\<close> with that status).
\<close>

type_synonym run = "event list \<times> (exn + unit)"

text \<open>\<^verbatim>\<open>str(n)\<close> of an integer, for the titles.\<close>

fun str_nat :: "nat \<Rightarrow> str" where
  "str_nat n = (if n < 10 then [48 + n] else str_nat (n div 10) @ [48 + n mod 10])"

declare str_nat.simps [simp del]



subsection \<open>\<^verbatim>\<open>stats\<close>\<close>

definition num_cols :: "frame \<Rightarrow> str list" where
  "num_cols df = map fst (filter (\<lambda>(c, dt). is_numeric_dtype dt) (zip (columns df) (dtypes df)))"




text \<open>
  The values of a column and its values that are not null, to say what the engine counts.
\<close>

definition column_values :: "frame \<Rightarrow> str \<Rightarrow> pyval list" where
  "column_values df c =
     map (\<lambda>r. case map_of (zip (columns df) r) c of None \<Rightarrow> PyNone | Some v \<Rightarrow> v) (rows df)"

definition drop_nulls :: "pyval list \<Rightarrow> pyval list" where
  "drop_nulls vs = filter (\<lambda>v. v \<noteq> PyNone) vs"




subsection \<open>\<^verbatim>\<open>sample\<close>\<close>


subsection \<open>\<^verbatim>\<open>convert\<close>\<close>

text \<open>
  The destination format as lines 128 and 129 of \<^verbatim>\<open>cli.py\<close> compute it: the override
  \<^verbatim>\<open>fmt_dst\<close> or else the extension of \<^verbatim>\<open>dst\<close>, then the alias dictionary.
\<close>

definition out_format :: "(str \<Rightarrow> str) \<Rightarrow> str \<Rightarrow> str option \<Rightarrow> str" where
  "out_format ul dst fmt_dst =
     (let out_fmt = or_else fmt_dst (lstrip_chars [dot] (lower ul (snd (splitext dst))))
      in case map_of [(lit ''jsonl'', lit ''ndjson''), (lit ''pq'', lit ''parquet'')] out_fmt of
           Some v \<Rightarrow> v
         | None \<Rightarrow> out_fmt)"

text \<open>
  After the call of a writer: its exception propagates, else line 141 prints the
  confirmation.
\<close>

definition written :: "event \<Rightarrow> str \<Rightarrow> exn + unit \<Rightarrow> run" where
  "written call dst result =
     (case result of
        Inl e \<Rightarrow> ([call], Inl e)
      | Inr u \<Rightarrow> ([call, Print (lit ''[green]Wrote[/green] '' @ dst)], Inr ()))"

definition convert ::
  "world \<Rightarrow> str \<Rightarrow> str \<Rightarrow> str option \<Rightarrow> str option \<Rightarrow> str option \<Rightarrow> run" where
  "convert w src dst fmt_src fmt_dst delimiter =
     (case read_frame w src fmt_src None 2048 of
        Inl e \<Rightarrow> ([], Inl e)
      | Inr df \<Rightarrow>
          let out_fmt = out_format (unicode_lower w) dst fmt_dst
          in if out_fmt = lit ''csv'' then
               (let sep = or_else delimiter [comma]
                in written (Write_csv df dst sep) dst (write_csv w df dst sep))
             else if out_fmt = lit ''parquet'' then
               written (Write_parquet df dst) dst (write_parquet w df dst)
             else if out_fmt = lit ''ndjson'' then
               written (Write_ndjson df dst) dst (write_ndjson w df dst)
             else
               ([Print (lit ''[red]Unsupported destination format: '' @ out_fmt @ lit ''[/red]'')],
                Inl (Exit 2)))"

text \<open>Whether an event asks the engine to write the file at \<open>dst\<close>.\<close>

fun writes_to :: "str \<Rightarrow> event \<Rightarrow> bool" where
  "writes_to dst (Write_csv df path sep) = (path = dst)"
| "writes_to dst (Write_parquet df path) = (path = dst)"
| "writes_to dst (Write_ndjson df path) = (path = dst)"
| "writes_to dst (Print s) = False"
| "writes_to dst (Print_panel s style) = False"
| "writes_to dst (Print_table t width) = False"

section \<open>A small world for concrete runs\<close>

text \<open>
  The concrete runs below are made in a world with two files. \<open>people.csv\<close> has a text
  column with values, a text column of nulls only and a boolean column; \<open>ten.csv\<close> has
  one integer column and ten rows. Its engine parses only these two files and writes
  any file; it draws a seeded sample by reading the rows backwards and an unseeded one
  by starting at the row that the random state picks; it lists the groups of a column by
  first occurrence and sorts them stably by count; its case mapping leaves non-ASCII
  text alone.
\<close>

definition people_frame :: frame where
  "people_frame =
     \<lparr>columns = [lit ''name'', lit ''note'', lit ''member''],
      dtypes = [Utf8, Utf8, Boolean],
      rows = [[PyOther (lit ''ann''), PyNone, PyOther (lit ''True'')],
              [PyOther (lit ''bob''), PyNone, PyOther (lit ''False'')],
              [PyOther (lit ''ann''), PyNone, PyNone]]\<rparr>"

definition ten_frame :: frame where
  "ten_frame =
     \<lparr>columns = [lit ''id''],
      dtypes = [Int64],
      rows = map (\<lambda>i. [PyOther (str_nat i)]) [0 ..< 10]\<rparr>"

definition small_files :: fs where
  "small_files =
     map_of [(lit ''people.csv'',
                ''name,note,member\<newline>ann,,true\<newline>bob,,false\<newline>ann,,\<newline>''),
             (lit ''ten.csv'', ''id\<newline>0\<newline>1\<newline>2\<newline>3\<newline>4\<newline>5\<newline>6\<newline>7\<newline>8\<newline>9\<newline>'')]"

definition small_reader :: "str \<Rightarrow> exn + frame" where
  "small_reader path =
     (if path = lit ''people.csv'' then Inr people_frame
      else if path = lit ''ten.csv'' then Inr ten_frame
      else Inl EngineError)"

definition group_len :: "pyval list \<Rightarrow> (pyval \<times> nat) list" where
  "group_len vs = map (\<lambda>v. (v, count_list vs v)) (remdups vs)"

definition small_counts :: "frame \<Rightarrow> str \<Rightarrow> frame" where
  "small_counts df c =
     \<lparr>columns = [c, lit ''len''],
      dtypes = [Utf8, UInt32],
      rows = map (\<lambda>g. [fst g, PyOther (str_nat (snd g))])
               (sort_key (\<lambda>g. - int (snd g))
                  (group_len (drop_nulls (column_values df c))))\<rparr>"

definition small_world :: world where
  "small_world =
     \<lparr>unicode_lower = (\<lambda>s. s),
      files = small_files,
      read_csv = (\<lambda>path separator infer_schema_length. small_reader path),
      read_ndjson = small_reader,
      read_parquet = small_reader,
      sample_seeded = (\<lambda>df n seed. Inr (df\<lparr>rows := take (nat n) (rev (rows df))\<rparr>)),
      sample_unseeded =
        (\<lambda>df n rng. Inr (df\<lparr>rows := take (nat n) (drop (rng mod 2) (rows df))\<rparr>)),
      summarize = (\<lambda>df num_cols. Inr (df\<lparr>rows := take 1 (rows df)\<rparr>)),
      value_counts = (\<lambda>df c. Inr (small_counts df c)),
      write_csv = (\<lambda>df path separator. Inr ()),
      write_parquet = (\<lambda>df path. Inr ()),
      write_ndjson = (\<lambda>df path. Inr ())\<rparr>"

section \<open>Properties of the delimiter sniffer\<close>

subsection \<open>The loop and the choice among the three candidates\<close>

text \<open>
  On one line the choice is by the three counts: comma unless another candidate has a
  greater count, tab before semicolon. The loop stops at the first line that is not
  blank once trimmed and judges the trimmed line.
\<close>

lemma sniff_line_cases:
  "sniff_line line =
     (let c = count_list line comma; t = count_list line tab; s = count_list line semicolon
      in if t \<le> c \<and> s \<le> c then [comma] else if s \<le> t then [tab] else [semicolon])"
  by (auto simp: sniff_line_def Let_def)

lemma sniff_lines_first_nonblank:
  "sniff_lines ls = (case first_nonblank ls of None \<Rightarrow> [comma] | Some l \<Rightarrow> sniff_line (strip l))"
  by (induction ls) (simp_all add: first_nonblank_def Let_def)

lemma sniff_delimiter_open:
  "fsys path = Some bs \<Longrightarrow> sniff_delimiter fsys path = Inr (sniff_lines (text_lines bs))"
  by (simp add: sniff_delimiter_def open_text_def)

lemma sniff_delimiter_closed:
  "fsys path = None \<Longrightarrow> sniff_delimiter fsys path = Inl OSError"
  by (simp add: sniff_delimiter_def open_text_def)

lemma sniff_lines_in_candidates:
  "sniff_lines ls = [comma] \<or> sniff_lines ls = [tab] \<or> sniff_lines ls = [semicolon]"
  unfolding sniff_lines_first_nonblank
  by (simp add: sniff_line_cases Let_def split: option.split)

lemma text_lines_undecodable:
  "utf8_ignore (map of_char bs) = [] \<Longrightarrow> text_lines bs = []"
  by (simp add: text_lines_def)

lemma isspace_tab: "isspace tab"
  by (simp add: isspace_def)

lemma strip_blank:
  assumes "list_all isspace l"
  shows "strip l = []"
proof -
  from assms have "lstrip l = []"
    unfolding lstrip_def by (induction l) simp_all
  then show ?thesis by (simp add: strip_def rstrip_def)
qed

lemma lstrip_leading_tabs: "lstrip (replicate m tab @ l) = lstrip l"
  by (induction m) (simp_all add: lstrip_def isspace_tab)

lemma dropWhile_leading_tabs: "dropWhile isspace (replicate n tab @ xs) = dropWhile isspace xs"
  by (induction n) (simp_all add: isspace_tab)

lemma rstrip_trailing_tabs: "rstrip (l @ replicate n tab) = rstrip l"
  by (simp add: rstrip_def dropWhile_leading_tabs)

lemma lstrip_trailing_tabs:
  "rstrip (lstrip (l @ replicate n tab)) = rstrip (lstrip l)"
proof (cases "list_all isspace l")
  case True
  then have "lstrip (l @ replicate n tab) = []" and "lstrip l = []"
    by (simp_all add: lstrip_def list_all_iff isspace_tab)
  then show ?thesis by simp
next
  case False
  then have "lstrip (l @ replicate n tab) = lstrip l @ replicate n tab"
    by (auto simp: lstrip_def list_all_iff dropWhile_append1)
  then show ?thesis by (simp add: rstrip_trailing_tabs)
qed

lemma strip_edge_tabs: "strip (replicate m tab @ l @ replicate n tab) = strip l"
  by (simp add: strip_def lstrip_leading_tabs lstrip_trailing_tabs)

subsection \<open>C1: the candidate with the highest count wins\<close>

text \<open>
  C1 as stated takes the counts in the first non-blank line. The code takes them in that
  line after trimming, so a delimiter at the edge of the line is not counted: in the
  file whose only line is two tabs followed by \<open>a,b\<close>, the tab has the strictly highest
  count in the line (two against one comma), and \<open>sniff_delimiter\<close> returns the comma.
\<close>

theorem sniff_raw_count_counterexample:
  "first_nonblank (text_lines ([CHR 0x09, CHR 0x09] @ ''a,b\<newline>'')) = Some [tab, tab, 97, comma, 98, newline] \<and>
   count_list [tab, tab, 97, comma, 98, newline] comma < count_list [tab, tab, 97, comma, 98, newline] tab \<and>
   count_list [tab, tab, 97, comma, 98, newline] semicolon < count_list [tab, tab, 97, comma, 98, newline] tab \<and>
   sniff_delimiter (map_of [(lit ''t.tsv'', [CHR 0x09, CHR 0x09] @ ''a,b\<newline>'')]) (lit ''t.tsv'') = Inr [comma]"
  by (simp add: sniff_delimiter_def open_text_def text_lines_def first_nonblank_def lit_def
      strip_def lstrip_def rstrip_def isspace_def sniff_line_def)

text \<open>
  C1, amended: for every file that can be opened, \<open>sniff_delimiter\<close> returns the
  candidate (comma, tab or semicolon) with the strictly highest count in the first
  non-blank line after its surrounding whitespace is trimmed; blank lines (blank once
  trimmed) are skipped; if the three counts are zero, or the file has no non-blank line,
  it returns the comma.
\<close>

theorem sniff_trimmed_majority:
  assumes "fsys path = Some bs"
  shows "(first_nonblank (text_lines bs) = None \<longrightarrow> sniff_delimiter fsys path = Inr [comma]) \<and>
    (\<forall>l. first_nonblank (text_lines bs) = Some l \<longrightarrow>
       (let t = strip l; c = count_list t comma; b = count_list t tab; s = count_list t semicolon
        in (c = 0 \<and> b = 0 \<and> s = 0 \<longrightarrow> sniff_delimiter fsys path = Inr [comma]) \<and>
           (b < c \<and> s < c \<longrightarrow> sniff_delimiter fsys path = Inr [comma]) \<and>
           (c < b \<and> s < b \<longrightarrow> sniff_delimiter fsys path = Inr [tab]) \<and>
           (c < s \<and> b < s \<longrightarrow> sniff_delimiter fsys path = Inr [semicolon])))"
proof -
  have open_eq: "sniff_delimiter fsys path = Inr (sniff_lines (text_lines bs))"
    using assms by (rule sniff_delimiter_open)
  show ?thesis
    unfolding open_eq sniff_lines_first_nonblank
    by (auto simp: sniff_line_cases Let_def)
qed

text \<open>
  The file with a blank first line followed by \<open>x;y;z\<close> yields the semicolon.
\<close>

theorem sniff_trimmed_majority_witness:
  "map_of [(lit ''b.csv'', ''\<newline>x;y;z\<newline>'')] (lit ''b.csv'') = Some ''\<newline>x;y;z\<newline>'' \<and>
   first_nonblank (text_lines ''\<newline>x;y;z\<newline>'') = Some (lit ''x;y;z\<newline>'') \<and>
   sniff_delimiter (map_of [(lit ''b.csv'', ''\<newline>x;y;z\<newline>'')]) (lit ''b.csv'') = Inr [semicolon]"
proof -
  have f: "map_of [(lit ''b.csv'', ''\<newline>x;y;z\<newline>'')] (lit ''b.csv'') = Some ''\<newline>x;y;z\<newline>''"
    by simp
  have l: "first_nonblank (text_lines ''\<newline>x;y;z\<newline>'') = Some (lit ''x;y;z\<newline>'')"
    by (simp add: text_lines_def first_nonblank_def lit_def strip_def lstrip_def rstrip_def isspace_def)
  have s: "strip (lit ''x;y;z\<newline>'') = lit ''x;y;z''"
    by (simp add: lit_def strip_def lstrip_def rstrip_def isspace_def)
  from sniff_trimmed_majority [where fsys = "map_of [(lit ''b.csv'', ''\<newline>x;y;z\<newline>'')]" and path = "lit ''b.csv''", OF f] l
  have "sniff_delimiter (map_of [(lit ''b.csv'', ''\<newline>x;y;z\<newline>'')]) (lit ''b.csv'') = Inr [semicolon]"
    by (simp add: s Let_def) (simp add: lit_def)
  with f l show ?thesis by simp
qed

subsection \<open>C5: when the sniffer fails\<close>

text \<open>
  C5 as stated has the sniffer return the comma when the file cannot be opened. The call
  of \<^verbatim>\<open>open\<close> is not guarded, so the error of the operating system leaves
  \<open>sniff_delimiter\<close>: on a file system without the file the result is the exception,
  not the comma.
\<close>

theorem sniff_unopenable_counterexample:
  "sniff_delimiter (map_of []) (lit ''missing.csv'') = Inl OSError \<and>
   sniff_delimiter (map_of []) (lit ''missing.csv'') \<noteq> Inr [comma]"
  by (simp add: sniff_delimiter_def open_text_def)

text \<open>
  C5, amended: if the file cannot be opened, the error of \<^verbatim>\<open>open\<close> propagates out of
  \<open>sniff_delimiter\<close>. For every file that can be opened \<open>sniff_delimiter\<close> does not
  fail: bytes that are no valid UTF-8 are dropped, the scan runs over the lines of the
  text that remains and returns one of the three candidates, and a file of which no byte
  can be decoded yields the comma.
\<close>

theorem sniff_total_on_openable:
  "(fsys path = None \<longrightarrow> sniff_delimiter fsys path = Inl OSError) \<and>
   (\<forall>bs. fsys path = Some bs \<longrightarrow>
      sniff_delimiter fsys path = Inr (sniff_lines (text_lines bs)) \<and>
      (sniff_delimiter fsys path = Inr [comma] \<or> sniff_delimiter fsys path = Inr [tab] \<or>
       sniff_delimiter fsys path = Inr [semicolon]) \<and>
      (utf8_ignore (map of_char bs) = [] \<longrightarrow> sniff_delimiter fsys path = Inr [comma]))"
proof (intro conjI allI impI)
  assume "fsys path = None"
  then show "sniff_delimiter fsys path = Inl OSError" by (rule sniff_delimiter_closed)
next
  fix bs assume "fsys path = Some bs"
  then show open_eq: "sniff_delimiter fsys path = Inr (sniff_lines (text_lines bs))"
    by (rule sniff_delimiter_open)
  show "sniff_delimiter fsys path = Inr [comma] \<or> sniff_delimiter fsys path = Inr [tab] \<or>
    sniff_delimiter fsys path = Inr [semicolon]"
    using sniff_lines_in_candidates [of "text_lines bs"] by (simp add: open_eq)
  assume "utf8_ignore (map of_char bs) = []"
  then show "sniff_delimiter fsys path = Inr [comma]"
    by (simp add: open_eq text_lines_undecodable)
qed

text \<open>
  A file of the two bytes \<open>FF FE\<close> decodes to the empty text and yields the comma; a
  path that is not on the file system raises.
\<close>

theorem sniff_total_on_openable_witness:
  "map_of [(lit ''bad.csv'', [CHR 0xFF, CHR 0xFE])] (lit ''bad.csv'') = Some [CHR 0xFF, CHR 0xFE] \<and>
   utf8_ignore (map of_char [CHR 0xFF, CHR 0xFE]) = [] \<and>
   sniff_delimiter (map_of [(lit ''bad.csv'', [CHR 0xFF, CHR 0xFE])]) (lit ''bad.csv'') = Inr [comma] \<and>
   map_of [(lit ''bad.csv'', [CHR 0xFF, CHR 0xFE])] (lit ''gone.csv'') = None \<and>
   sniff_delimiter (map_of [(lit ''bad.csv'', [CHR 0xFF, CHR 0xFE])]) (lit ''gone.csv'') = Inl OSError"
proof -
  have f: "map_of [(lit ''bad.csv'', [CHR 0xFF, CHR 0xFE])] (lit ''bad.csv'') = Some [CHR 0xFF, CHR 0xFE]"
    by simp
  have d: "utf8_ignore (map of_char [CHR 0xFF, CHR 0xFE]) = []"
    by simp
  have g: "map_of [(lit ''bad.csv'', [CHR 0xFF, CHR 0xFE])] (lit ''gone.csv'') = None"
    by (simp add: lit_def)
  from sniff_total_on_openable
    [where fsys = "map_of [(lit ''bad.csv'', [CHR 0xFF, CHR 0xFE])]" and path = "lit ''bad.csv''"]
    f d
  have 1: "sniff_delimiter (map_of [(lit ''bad.csv'', [CHR 0xFF, CHR 0xFE])]) (lit ''bad.csv'') = Inr [comma]"
    by blast
  from sniff_total_on_openable
    [where fsys = "map_of [(lit ''bad.csv'', [CHR 0xFF, CHR 0xFE])]" and path = "lit ''gone.csv''"]
    g
  have 2: "sniff_delimiter (map_of [(lit ''bad.csv'', [CHR 0xFF, CHR 0xFE])]) (lit ''gone.csv'') = Inl OSError"
    by blast
  from f d g 1 2 show ?thesis by blast
qed

subsection \<open>C10: the counts are taken on the trimmed line\<close>

text \<open>
  C10: \<open>sniff_delimiter\<close> counts the delimiters on the trimmed line, not on the raw
  line. The result is that of the loop over the lines of the file; a line that is not
  blank is judged by its trimmed text; tabs added in front of a line or behind it never
  change the result; a line of whitespace only (tabs included) is skipped; and the
  tab-delimited file with the one line \<open>\tname\t\<close>, whose tabs all lie at the edges of the
  line, yields the comma.
\<close>

theorem sniff_counts_on_trimmed_line:
  "(fsys path = Some bs \<longrightarrow> sniff_delimiter fsys path = Inr (sniff_lines (text_lines bs))) \<and>
   (strip l \<noteq> [] \<longrightarrow> sniff_lines (l # ls) = sniff_line (strip l)) \<and>
   sniff_lines ((replicate m tab @ l @ replicate n tab) # ls) = sniff_lines (l # ls) \<and>
   (list_all isspace l \<longrightarrow> sniff_lines (l # ls) = sniff_lines ls) \<and>
   sniff_delimiter
     (map_of [(lit ''edge.tsv'', [CHR 0x09] @ ''name'' @ [CHR 0x09] @ ''\<newline>'')])
     (lit ''edge.tsv'') = Inr [comma]"
proof (intro conjI impI)
  assume "fsys path = Some bs"
  then show "sniff_delimiter fsys path = Inr (sniff_lines (text_lines bs))"
    by (rule sniff_delimiter_open)
next
  assume "strip l \<noteq> []"
  then show "sniff_lines (l # ls) = sniff_line (strip l)" by (simp add: Let_def)
next
  show "sniff_lines ((replicate m tab @ l @ replicate n tab) # ls) = sniff_lines (l # ls)"
    by (simp add: strip_edge_tabs)
next
  assume "list_all isspace l"
  then show "sniff_lines (l # ls) = sniff_lines ls" by (simp add: strip_blank)
next
  show "sniff_delimiter
     (map_of [(lit ''edge.tsv'', [CHR 0x09] @ ''name'' @ [CHR 0x09] @ ''\<newline>'')])
     (lit ''edge.tsv'') = Inr [comma]"
    by (simp add: sniff_delimiter_def open_text_def text_lines_def lit_def
        strip_def lstrip_def rstrip_def isspace_def sniff_line_def)
qed

text \<open>
  In the file below the first line holds two tabs and is skipped; the second line
  \<open>a;b\<close> ends with a tab, which is not counted, and the semicolon wins.
\<close>

theorem sniff_counts_on_trimmed_line_witness:
  "map_of [(lit ''w.tsv'', [CHR 0x09, CHR 0x09] @ ''\<newline>a;b'' @ [CHR 0x09] @ ''\<newline>'')] (lit ''w.tsv'')
     = Some ([CHR 0x09, CHR 0x09] @ ''\<newline>a;b'' @ [CHR 0x09] @ ''\<newline>'') \<and>
   text_lines ([CHR 0x09, CHR 0x09] @ ''\<newline>a;b'' @ [CHR 0x09] @ ''\<newline>'')
     = [[tab, tab, newline], [97, semicolon, 98, tab, newline]] \<and>
   list_all isspace [tab, tab, newline] \<and>
   strip [97, semicolon, 98, tab, newline] \<noteq> [] \<and>
   sniff_delimiter
     (map_of [(lit ''w.tsv'', [CHR 0x09, CHR 0x09] @ ''\<newline>a;b'' @ [CHR 0x09] @ ''\<newline>'')])
     (lit ''w.tsv'') = Inr [semicolon]"
proof -
  let ?bs = "[CHR 0x09, CHR 0x09] @ ''\<newline>a;b'' @ [CHR 0x09] @ ''\<newline>''"
  let ?l1 = "[tab, tab, newline]"
  let ?l2 = "[97, semicolon, 98, tab, newline]"
  have f: "map_of [(lit ''w.tsv'', ?bs)] (lit ''w.tsv'') = Some ?bs" by simp
  have t: "text_lines ?bs = [?l1, ?l2]" by (simp add: text_lines_def)
  have b: "list_all isspace ?l1" by (simp add: isspace_def)
  have s: "strip ?l2 = [97, semicolon, 98]"
    by (simp add: strip_def lstrip_def rstrip_def isspace_def)
  have "sniff_delimiter (map_of [(lit ''w.tsv'', ?bs)]) (lit ''w.tsv'') = Inr (sniff_lines [?l1, ?l2])"
    using sniff_counts_on_trimmed_line
      [where fsys = "map_of [(lit ''w.tsv'', ?bs)]" and path = "lit ''w.tsv''" and bs = ?bs] f t
    by simp
  also have "sniff_lines [?l1, ?l2] = sniff_lines [?l2]"
    using sniff_counts_on_trimmed_line [where l = ?l1 and ls = "[?l2]"] b by blast
  also have "sniff_lines [?l2] = sniff_line (strip ?l2)"
    using sniff_counts_on_trimmed_line [where l = ?l2 and ls = "[]"] s by simp
  also have "sniff_line (strip ?l2) = [semicolon]"
    by (simp add: s sniff_line_def)
  finally have r: "sniff_delimiter (map_of [(lit ''w.tsv'', ?bs)]) (lit ''w.tsv'') = Inr [semicolon]" .
  from s have s': "strip ?l2 \<noteq> []" by simp
  show ?thesis by (intro conjI f t b s' r)
qed
section \<open>Properties of format detection\<close>

lemma or_else_simps:
  "or_else None y = y" "or_else (Some []) y = y" "s \<noteq> [] \<Longrightarrow> or_else (Some s) y = s"
  by (simp_all add: or_else_def)

lemma detect_format_override:
  "f \<noteq> [] \<Longrightarrow> detect_format ul path (Some f) = lower ul f"
  by (simp add: detect_format_def or_else_simps)

lemma detect_format_extension:
  assumes "fmt = None \<or> fmt = Some []"
  shows "detect_format ul path fmt =
     (let ext = lower ul (snd (splitext path))
      in if ext = lit ''.csv'' \<or> ext = lit ''.tsv'' then lit ''csv''
         else if ext = lit ''.jsonl'' \<or> ext = lit ''.ndjson'' then lit ''ndjson''
         else if ext = lit ''.parquet'' \<or> ext = lit ''.pq'' then lit ''parquet''
         else lit ''csv'')"
  using assms by (auto simp: detect_format_def or_else_simps Let_def)

lemma lit_neq [simp]:
  "lit ''ndjson'' \<noteq> lit ''csv''" "lit ''parquet'' \<noteq> lit ''csv''" "lit ''parquet'' \<noteq> lit ''ndjson''"
  by (simp_all add: lit_def)

lemma read_frame_unsupported:
  assumes "f \<noteq> []"
    and "lower (unicode_lower w) f \<noteq> lit ''csv''"
    and "lower (unicode_lower w) f \<noteq> lit ''ndjson''"
    and "lower (unicode_lower w) f \<noteq> lit ''parquet''"
  shows "read_frame w path (Some f) delimiter infer_schema_length =
    Inl (ValueError (lit ''Unsupported format: '' @ lower (unicode_lower w) f))"
  using assms by (simp add: read_frame_def detect_format_override)

lemma lower_ascii_examples:
  "lower ul (lit ''PARQUET'') = lit ''parquet''"
  "lower ul (lit ''xml'') = lit ''xml''"
  "lower ul (lit ''CSV'') = lit ''csv''"
  "lower ul (lit ''.JSONL'') = lit ''.jsonl''"
  "lower ul (lit ''.CSV'') = lit ''.csv''"
  "lower ul (lit ''.gz'') = lit ''.gz''"
  by (simp_all add: lower_def lit_def ascii_lower_def)

lemma splitext_examples:
  "splitext (lit ''DATA.JSONL'') = (lit ''DATA'', lit ''.JSONL'')"
  "splitext (lit ''archive.tar.gz'') = (lit ''archive.tar'', lit ''.gz'')"
  "splitext (lit ''out.CSV'') = (lit ''out'', lit ''.CSV'')"
  by (simp_all add: splitext_def rfind_def lit_def)

subsection \<open>C4: the override wins, the extension decides otherwise\<close>

text \<open>
  C4: \<open>detect_format\<close> is a function of the path and the override alone (it reads no
  file). A non-empty override is returned lowercased, whatever the path and whether or
  not the tag is supported; \<open>read_frame\<close> then raises \<^verbatim>\<open>ValueError\<close> for a tag that is none
  of \<open>csv\<close>, \<open>ndjson\<close>, \<open>parquet\<close>. With no override (\<^verbatim>\<open>None\<close> or the empty string) the
  lowercased extension decides: \<open>.csv\<close> and \<open>.tsv\<close> give \<open>csv\<close>, \<open>.jsonl\<close> and \<open>.ndjson\<close>
  give \<open>ndjson\<close>, \<open>.parquet\<close> and \<open>.pq\<close> give \<open>parquet\<close>, anything else gives \<open>csv\<close>.
\<close>

theorem detect_format_spec:
  "(f \<noteq> [] \<longrightarrow>
      detect_format ul path (Some f) = lower ul f \<and>
      detect_format ul path (Some f) = detect_format ul path' (Some f)) \<and>
   (fmt = None \<or> fmt = Some [] \<longrightarrow>
      detect_format ul path fmt =
        (let ext = lower ul (snd (splitext path))
         in if ext = lit ''.csv'' \<or> ext = lit ''.tsv'' then lit ''csv''
            else if ext = lit ''.jsonl'' \<or> ext = lit ''.ndjson'' then lit ''ndjson''
            else if ext = lit ''.parquet'' \<or> ext = lit ''.pq'' then lit ''parquet''
            else lit ''csv'')) \<and>
   (f \<noteq> [] \<and> lower (unicode_lower w) f \<noteq> lit ''csv'' \<and>
    lower (unicode_lower w) f \<noteq> lit ''ndjson'' \<and> lower (unicode_lower w) f \<noteq> lit ''parquet'' \<longrightarrow>
      read_frame w path (Some f) delimiter infer_schema_length =
        Inl (ValueError (lit ''Unsupported format: '' @ lower (unicode_lower w) f)))"
  by (intro conjI impI)
    (simp_all add: detect_format_override detect_format_extension read_frame_unsupported)

text \<open>
  The override \<open>PARQUET\<close> wins over the extension of \<open>x.csv\<close>; \<open>DATA.JSONL\<close> is
  \<open>ndjson\<close>; \<open>archive.tar.gz\<close> falls back to \<open>csv\<close>; the override \<open>xml\<close> makes the loader
  raise.
\<close>

theorem detect_format_spec_witness:
  "lit ''PARQUET'' \<noteq> [] \<and>
   detect_format (\<lambda>s. s) (lit ''x.csv'') (Some (lit ''PARQUET'')) = lit ''parquet'' \<and>
   detect_format (\<lambda>s. s) (lit ''DATA.JSONL'') None = lit ''ndjson'' \<and>
   detect_format (\<lambda>s. s) (lit ''archive.tar.gz'') (Some []) = lit ''csv'' \<and>
   read_frame small_world (lit ''people.csv'') (Some (lit ''xml'')) None 2048 =
     Inl (ValueError (lit ''Unsupported format: xml''))"
proof -
  have ne: "lit ''PARQUET'' \<noteq> []" "lit ''xml'' \<noteq> []" by (simp_all add: lit_def)
  have w: "unicode_lower small_world = (\<lambda>s. s)" by (simp add: small_world_def)
  have x: "lit ''xml'' \<noteq> lit ''csv''" "lit ''xml'' \<noteq> lit ''ndjson''" "lit ''xml'' \<noteq> lit ''parquet''"
    by (simp_all add: lit_def)
  have 1: "detect_format (\<lambda>s. s) (lit ''x.csv'') (Some (lit ''PARQUET'')) = lit ''parquet''"
    using detect_format_spec [where f = "lit ''PARQUET''" and ul = "\<lambda>s. s" and path = "lit ''x.csv''"] ne
    by (simp add: lower_ascii_examples)
  have 2: "detect_format (\<lambda>s. s) (lit ''DATA.JSONL'') None = lit ''ndjson''"
    using detect_format_spec [where fmt = None and ul = "\<lambda>s. s" and path = "lit ''DATA.JSONL''"]
    by (simp add: splitext_examples lower_ascii_examples) (simp add: lit_def)
  have 3: "detect_format (\<lambda>s. s) (lit ''archive.tar.gz'') (Some []) = lit ''csv''"
    using detect_format_spec [where fmt = "Some []" and ul = "\<lambda>s. s" and path = "lit ''archive.tar.gz''"]
    by (simp add: splitext_examples lower_ascii_examples) (simp add: lit_def)
  have 4: "read_frame small_world (lit ''people.csv'') (Some (lit ''xml'')) None 2048 =
     Inl (ValueError (lit ''Unsupported format: xml''))"
    using detect_format_spec [where f = "lit ''xml''" and w = small_world and path = "lit ''people.csv''"
        and delimiter = None and infer_schema_length = 2048] ne x
    by (simp add: w lower_ascii_examples) (simp add: lit_def)
  show ?thesis by (intro conjI ne 1 2 3 4)
qed
section \<open>Properties of \<^verbatim>\<open>convert\<close>\<close>

lemma out_format_override:
  "f \<noteq> [] \<Longrightarrow>
   out_format ul dst (Some f) =
     (if f = lit ''jsonl'' then lit ''ndjson'' else if f = lit ''pq'' then lit ''parquet'' else f)"
  by (simp add: out_format_def or_else_simps)



lemma convert_unsupported:
  assumes "read_frame w src fmt_src None 2048 = Inr df"
    and "out_format (unicode_lower w) dst fmt_dst \<noteq> lit ''csv''"
    and "out_format (unicode_lower w) dst fmt_dst \<noteq> lit ''parquet''"
    and "out_format (unicode_lower w) dst fmt_dst \<noteq> lit ''ndjson''"
  shows "convert w src dst fmt_src fmt_dst delimiter =
    ([Print (lit ''[red]Unsupported destination format: '' @
             out_format (unicode_lower w) dst fmt_dst @ lit ''[/red]'')],
     Inl (Exit 2))"
  using assms by (simp add: convert_def Let_def)

lemma convert_csv:
  assumes "read_frame w src fmt_src None 2048 = Inr df"
    and "out_format (unicode_lower w) dst fmt_dst = lit ''csv''"
  shows "convert w src dst fmt_src fmt_dst delimiter =
    written (Write_csv df dst (or_else delimiter [comma])) dst
      (write_csv w df dst (or_else delimiter [comma]))"
  using assms by (simp add: convert_def Let_def)


lemma read_people:
  "read_frame small_world (lit ''people.csv'') None None 2048 = Inr people_frame"
  by (simp add: read_frame_def detect_format_def or_else_def small_world_def small_reader_def
      small_files_def sniff_delimiter_def open_text_def
      lower_def splitext_def rfind_def ascii_lower_def lit_def)

lemma read_frame_csv_given_delimiter:
  "detect_format (unicode_lower w) path fmt = lit ''csv'' \<Longrightarrow>
   read_frame w path fmt (Some d) n = read_csv w path d n"
  by (simp add: read_frame_def)

subsection \<open>C3: the destination format and the unsupported case\<close>




subsection \<open>C9: the destination override is not lowercased\<close>

text \<open>
  C9: the \<^verbatim>\<open>--to-format\<close> override is used as given. The override \<open>CSV\<close> is the
  destination format \<open>CSV\<close>, which is unsupported: when the source loads, \<open>convert\<close>
  exits with status 2. The same token is accepted as a source format (\<open>detect_format\<close>
  lowercases it and the CSV reader is called) and as the extension of the destination
  (for \<open>out.CSV\<close> the CSV writer is called and, when it returns, the confirmation is
  printed).
\<close>

theorem to_format_override_not_lowercased:
  "out_format ul dst (Some (lit ''CSV'')) = lit ''CSV'' \<and>
   (\<forall>df. read_frame w src fmt_src None 2048 = Inr df \<longrightarrow>
      convert w src dst fmt_src (Some (lit ''CSV'')) delimiter =
        ([Print (lit ''[red]Unsupported destination format: CSV[/red]'')], Inl (Exit 2))) \<and>
   detect_format ul path (Some (lit ''CSV'')) = lit ''csv'' \<and>
   read_frame w path (Some (lit ''CSV'')) (Some d) n = read_csv w path d n \<and>
   out_format ul (lit ''out.CSV'') None = lit ''csv'' \<and>
   (\<forall>df. read_frame w src fmt_src None 2048 = Inr df \<longrightarrow>
      list_ex (writes_to (lit ''out.CSV'')) (fst (convert w src (lit ''out.CSV'') fmt_src None delimiter)) \<and>
      (write_csv w df (lit ''out.CSV'') (or_else delimiter [comma]) = Inr () \<longrightarrow>
         convert w src (lit ''out.CSV'') fmt_src None delimiter =
           ([Write_csv df (lit ''out.CSV'') (or_else delimiter [comma]),
             Print (lit ''[green]Wrote[/green] out.CSV'')], Inr ())))"
proof -
  have ne: "lit ''CSV'' \<noteq> []" by (simp add: lit_def)
  have up: "out_format ul dst (Some (lit ''CSV'')) = lit ''CSV''" for ul dst
    using ne by (simp add: out_format_override) (simp add: lit_def)
  have neq: "lit ''CSV'' \<noteq> lit ''csv''" "lit ''CSV'' \<noteq> lit ''parquet''" "lit ''CSV'' \<noteq> lit ''ndjson''"
    by (simp_all add: lit_def)
  have ext: "out_format ul (lit ''out.CSV'') None = lit ''csv''" for ul
    by (simp add: out_format_def or_else_def splitext_def rfind_def lower_def lstrip_chars_def
        ascii_lower_def lit_def)
  have det: "detect_format ul path (Some (lit ''CSV'')) = lit ''csv''" for ul
    using ne by (simp add: detect_format_override lower_ascii_examples)
  have a: "convert w src dst fmt_src (Some (lit ''CSV'')) delimiter =
        ([Print (lit ''[red]Unsupported destination format: CSV[/red]'')], Inl (Exit 2))"
    if "read_frame w src fmt_src None 2048 = Inr df" for df
    using that neq by (simp add: convert_unsupported up) (simp add: lit_def)
  have b: "convert w src (lit ''out.CSV'') fmt_src None delimiter =
        written (Write_csv df (lit ''out.CSV'') (or_else delimiter [comma])) (lit ''out.CSV'')
          (write_csv w df (lit ''out.CSV'') (or_else delimiter [comma]))"
    if "read_frame w src fmt_src None 2048 = Inr df" for df
    using that by (simp add: convert_csv ext)
  have c: "list_ex (writes_to (lit ''out.CSV'')) (fst (convert w src (lit ''out.CSV'') fmt_src None delimiter))"
    if "read_frame w src fmt_src None 2048 = Inr df" for df
    by (simp add: b [OF that] written_def split: sum.split)
  have d: "convert w src (lit ''out.CSV'') fmt_src None delimiter =
           ([Write_csv df (lit ''out.CSV'') (or_else delimiter [comma]),
             Print (lit ''[green]Wrote[/green] out.CSV'')], Inr ())"
    if "read_frame w src fmt_src None 2048 = Inr df"
      and "write_csv w df (lit ''out.CSV'') (or_else delimiter [comma]) = Inr ()" for df
    using that(2) by (simp add: b [OF that(1)] written_def) (simp add: lit_def)
  show ?thesis
    using up ext det a c d by (simp add: read_frame_csv_given_delimiter)
qed

text \<open>
  In the small world: \<open>people.csv\<close> to \<open>out.dat\<close> with the override \<open>CSV\<close> exits with
  status 2; to \<open>out.CSV\<close> with no override it is written as CSV.
\<close>

theorem to_format_override_not_lowercased_witness:
  "read_frame small_world (lit ''people.csv'') None None 2048 = Inr people_frame \<and>
   convert small_world (lit ''people.csv'') (lit ''out.dat'') None (Some (lit ''CSV'')) None =
     ([Print (lit ''[red]Unsupported destination format: CSV[/red]'')], Inl (Exit 2)) \<and>
   convert small_world (lit ''people.csv'') (lit ''out.CSV'') None None None =
     ([Write_csv people_frame (lit ''out.CSV'') [comma],
       Print (lit ''[green]Wrote[/green] out.CSV'')], Inr ()) \<and>
   detect_format (unicode_lower small_world) (lit ''people.dat'') (Some (lit ''CSV'')) = lit ''csv''"
proof -
  note t = to_format_override_not_lowercased
    [where w = small_world and src = "lit ''people.csv''" and fmt_src = None and delimiter = None
       and dst = "lit ''out.dat''" and ul = "unicode_lower small_world" and path = "lit ''people.dat''"]
  from t read_people
  have 1: "convert small_world (lit ''people.csv'') (lit ''out.dat'') None (Some (lit ''CSV'')) None =
     ([Print (lit ''[red]Unsupported destination format: CSV[/red]'')], Inl (Exit 2))"
    by blast
  have wr: "write_csv small_world people_frame (lit ''out.CSV'') (or_else None [comma]) = Inr ()"
    by (simp add: small_world_def)
  from t read_people wr
  have 2: "convert small_world (lit ''people.csv'') (lit ''out.CSV'') None None None =
     ([Write_csv people_frame (lit ''out.CSV'') [comma],
       Print (lit ''[green]Wrote[/green] out.CSV'')], Inr ())"
    by (simp add: or_else_def)
  from t
  have 3: "detect_format (unicode_lower small_world) (lit ''people.dat'') (Some (lit ''CSV'')) = lit ''csv''"
    by blast
  show ?thesis by (intro conjI read_people 1 2 3)
qed
section \<open>Properties of the renderer\<close>




subsection \<open>C7: the display text of a cell\<close>

text \<open>
  C7 has a missing value shown as the empty-set marker. The literal in \<open>repr_cell\<close> is
  not the empty-set sign U+2205: it holds the three code points U+00E2, U+02C6, U+2026,
  which is how the UTF-8 bytes \<open>E2 88 85\<close> of that sign read in Windows-1252. For
  \<^verbatim>\<open>None\<close> the function returns these three characters.
\<close>

theorem repr_cell_none_marker:
  "repr_cell PyNone = [0xE2, 0x2C6, 0x2026] \<and> repr_cell PyNone \<noteq> [0x2205]"
  by simp

text \<open>
  The other kinds of value are shown as C7 says: a float by its \<^verbatim>\<open>.6g\<close> text; a list,
  tuple, set or dict by its \<^verbatim>\<open>str\<close> text if that has at most 80 characters, else by its
  first 77 characters and three dots, so never by more than 80 characters; any other
  value by its \<^verbatim>\<open>str\<close> text.
\<close>

lemma repr_cell_kinds:
  "repr_cell (PyFloat g) = g \<and>
   (c \<in> {PyList s, PyTuple s, PySet s, PyDict s} \<longrightarrow>
      (length s \<le> 80 \<longrightarrow> repr_cell c = s) \<and>
      (80 < length s \<longrightarrow> repr_cell c = take 77 s @ lit ''...'') \<and>
      length (repr_cell c) \<le> 80) \<and>
   repr_cell (PyOther s) = s"
  by (auto simp: truncate_cell_def lit_def)

subsection \<open>C6: at most \<open>max_rows\<close> rows, the first ones\<close>



section \<open>Properties of \<^verbatim>\<open>sample\<close>\<close>





subsection \<open>C2: the sample size is clamped, and only an empty sample is an error\<close>


section \<open>Properties of \<^verbatim>\<open>stats\<close>\<close>











subsection \<open>C8: frames without numeric columns\<close>




end
